theory Spec2Isabelle
  imports Complex_Main "HOL-Library.Product_Lexorder"
begin

section \<open>Values, errors and dictionaries\<close>

text \<open>
  The analyzer (\<^verbatim>\<open>scripts/analyze-security-reports.py\<close>) handles values that come out of
  \<^verbatim>\<open>json.load\<close> and out of \<^verbatim>\<open>ElementTree\<close>: \<^verbatim>\<open>None\<close>, strings, lists and dictionaries.
  A dictionary is an association list in insertion order with unique keys. JSON numbers and
  booleans are not part of the model: OWASP ZAP writes every scalar of an alert as a string.
  A \<open>string\<close> is the list of the UTF-8 bytes of a Python \<^verbatim>\<open>str\<close>; Python counts and
  slices code points, which are the byte groups \<open>code_points\<close> cuts the list into.
\<close>

datatype pyval =
    PNone
  | PStr string
  | PList "pyval list"
  | PDict "(string \<times> pyval) list"

datatype error =
    TypeError | AttributeError | KeyError | IndexError | ValueError | OSError
  | ZeroDivisionError | OverflowError

text \<open>
  The code points of a string. In UTF-8 a code point is one byte that is not a continuation
  byte (a byte \<^verbatim>\<open>10xxxxxx\<close>, from \<^verbatim>\<open>0x80\<close> to \<^verbatim>\<open>0xBF\<close>), followed by its continuation bytes.
\<close>

definition is_continuation :: "char \<Rightarrow> bool" where
  "is_continuation c = (128 \<le> (of_char c :: nat) \<and> (of_char c :: nat) < 192)"

function code_points :: "string \<Rightarrow> string list" where
  "code_points [] = []"
| "code_points (c # cs) =
     (c # takeWhile is_continuation cs) # code_points (dropWhile is_continuation cs)"
  by pat_completeness auto
termination
  by (relation "measure length") (auto simp: length_dropWhile_le le_imp_less_Suc)

text \<open>\<^verbatim>\<open>d[k]\<close> on a dictionary: raises \<^verbatim>\<open>KeyError\<close> when the key is missing.\<close>

definition dict_get :: "'k \<Rightarrow> ('k \<times> 'v) list \<Rightarrow> error + 'v" where
  "dict_get k d = (case map_of d k of None \<Rightarrow> Inl KeyError | Some v \<Rightarrow> Inr v)"

text \<open>\<^verbatim>\<open>d.get(k, default)\<close>.\<close>

definition dict_get_default :: "'k \<Rightarrow> 'v \<Rightarrow> ('k \<times> 'v) list \<Rightarrow> 'v" where
  "dict_get_default k dflt d = (case map_of d k of None \<Rightarrow> dflt | Some v \<Rightarrow> v)"

text \<open>Sequencing of steps that may raise: the first exception ends the computation.\<close>

definition bind :: "error + 'a \<Rightarrow> ('a \<Rightarrow> error + 'b) \<Rightarrow> error + 'b" where
  "bind m f = (case m of Inl e \<Rightarrow> Inl e | Inr v \<Rightarrow> f v)"

text \<open>A list comprehension whose element expression may raise.\<close>

fun map_result :: "('a \<Rightarrow> error + 'b) \<Rightarrow> 'a list \<Rightarrow> error + 'b list" where
  "map_result f [] = Inr []"
| "map_result f (x # xs) = bind (f x) (\<lambda>y. bind (map_result f xs) (\<lambda>ys. Inr (y # ys)))"

text \<open>
  \<^verbatim>\<open>obj.get(k, default)\<close> on an arbitrary value: only a dictionary has \<^verbatim>\<open>get\<close>, every other
  value raises \<^verbatim>\<open>AttributeError\<close>.
\<close>

definition py_get :: "pyval \<Rightarrow> string \<Rightarrow> pyval \<Rightarrow> error + pyval" where
  "py_get obj k dflt =
     (case obj of PDict d \<Rightarrow> Inr (dict_get_default k dflt d) | _ \<Rightarrow> Inl AttributeError)"

text \<open>
  \<^verbatim>\<open>len(v)\<close>: strings (the number of code points), lists and dictionaries have a length,
  \<^verbatim>\<open>None\<close> has none.
\<close>

definition py_len :: "pyval \<Rightarrow> error + nat" where
  "py_len v =
     (case v of
        PNone \<Rightarrow> Inl TypeError
      | PStr s \<Rightarrow> Inr (length (code_points s))
      | PList xs \<Rightarrow> Inr (length xs)
      | PDict d \<Rightarrow> Inr (length d))"

text \<open>
  \<^verbatim>\<open>for x in v\<close>: a list yields its elements, a string its characters (as one-character
  strings), a dictionary its keys; \<^verbatim>\<open>None\<close> is not iterable.
\<close>

definition py_iter :: "pyval \<Rightarrow> error + pyval list" where
  "py_iter v =
     (case v of
        PNone \<Rightarrow> Inl TypeError
      | PStr s \<Rightarrow> Inr (map PStr (code_points s))
      | PList xs \<Rightarrow> Inr xs
      | PDict d \<Rightarrow> Inr (map (\<lambda>kv. PStr (fst kv)) d))"

text \<open>Lists and dictionaries are unhashable: they are neither dictionary keys nor set members.\<close>

fun hashable :: "pyval \<Rightarrow> bool" where
  "hashable PNone = True"
| "hashable (PStr _) = True"
| "hashable (PList _) = False"
| "hashable (PDict _) = False"

text \<open>
  \<^verbatim>\<open>s.split(c)\<close> for a one-character separator: the pieces between the occurrences of the
  separator. The result is never empty.
\<close>

fun split_on :: "char \<Rightarrow> string \<Rightarrow> string list" where
  "split_on c [] = [[]]"
| "split_on c (x # xs) =
     (if x = c then [] # split_on c xs
      else (case split_on c xs of [] \<Rightarrow> [[x]] | w # ws \<Rightarrow> (x # w) # ws))"

text \<open>\<^verbatim>\<open>xs[0]\<close>.\<close>

definition index0 :: "'a list \<Rightarrow> error + 'a" where
  "index0 xs = (case xs of [] \<Rightarrow> Inl IndexError | x # _ \<Rightarrow> Inr x)"

section \<open>Risk summary\<close>

text \<open>
  \<^verbatim>\<open>self.risk_summary\<close> as \<^verbatim>\<open>__init__\<close> creates it: five keys, in this order, all zero.
\<close>

type_synonym risk_summary = "(string \<times> int) list"

definition init_risk_summary :: risk_summary where
  "init_risk_summary =
     [(''critical'', 0), (''high'', 0), (''medium'', 0), (''low'', 0), (''informational'', 0)]"

definition risk_levels :: "string list" where
  "risk_levels = [''critical'', ''high'', ''medium'', ''low'', ''informational'']"

text \<open>\<^verbatim>\<open>d[k] += 1\<close> for a key that is present; the entry keeps its position.\<close>

fun dict_incr :: "string \<Rightarrow> risk_summary \<Rightarrow> risk_summary" where
  "dict_incr k [] = []"
| "dict_incr k ((k', v) # d) = (if k = k' then (k', v + 1) # d else (k', v) # dict_incr k d)"

text \<open>
  \<^verbatim>\<open>_update_risk_summary\<close>:
  \<^verbatim>\<open>if risk in self.risk_summary: self.risk_summary[risk] += 1\<close>
\<close>

definition update_risk_summary :: "string \<Rightarrow> risk_summary \<Rightarrow> risk_summary" where
  "update_risk_summary risk rs = (if risk \<in> set (map fst rs) then dict_incr risk rs else rs)"

text \<open>\<^verbatim>\<open>sum(self.risk_summary.values())\<close>.\<close>

definition sum_values :: "risk_summary \<Rightarrow> int" where
  "sum_values rs = sum_list (map snd rs)"

text \<open>
  The summary after the classifier has been called once per finding, in discovery order,
  on a new analyzer; \<open>risks\<close> are the findings' risk labels.
\<close>

definition summary_after :: "string list \<Rightarrow> risk_summary" where
  "summary_after risks = foldl (\<lambda>rs risk. update_risk_summary risk rs) init_risk_summary risks"

section \<open>Canonical findings\<close>

text \<open>
  The dictionary both normalizers return, with its twelve keys as fields (\<open>finding_id\<close> is
  the key \<^verbatim>\<open>id\<close>). \<open>risk\<close> and \<open>source\<close> are always strings, \<open>instances\<close> is the result of
  \<^verbatim>\<open>len\<close>, \<open>urls\<close> is always a list; the other fields hold whatever the report held.
\<close>

record finding =
  finding_id :: pyval
  name :: pyval
  risk :: string
  confidence :: pyval
  description :: pyval
  solution :: pyval
  reference :: pyval
  instances :: nat
  urls :: "pyval list"
  cwe_id :: pyval
  wasc_id :: pyval
  source :: string

section \<open>The JSON normalizer\<close>

definition risk_map_json :: "(string \<times> string) list" where
  "risk_map_json =
     [(''High'', ''high''), (''Medium'', ''medium''), (''Low'', ''low''),
      (''Informational'', ''informational'')]"

text \<open>
  Lines 82 and 83 of \<^verbatim>\<open>_parse_zap_alert\<close>, from the value of
  \<^verbatim>\<open>alert.get('riskdesc', 'Unknown')\<close> on:
  \<^verbatim>\<open>risk = risk_map.get(risk_desc.split(' ')[0], 'unknown')\<close>.
  Only a string has \<^verbatim>\<open>split\<close>.
\<close>

definition risk_of_riskdesc :: "pyval \<Rightarrow> error + string" where
  "risk_of_riskdesc risk_desc =
     (case risk_desc of
        PStr s \<Rightarrow>
          bind (index0 (split_on CHR '' '' s)) (\<lambda>token.
            Inr (dict_get_default token ''unknown'' risk_map_json))
      | _ \<Rightarrow> Inl AttributeError)"

text \<open>
  \<^verbatim>\<open>_parse_zap_alert\<close>. The first \<^verbatim>\<open>alert.get\<close> raises unless the alert is a dictionary.
  The fields are evaluated in the order of the source: the risk, then \<^verbatim>\<open>len\<close> of the
  instances, then the comprehension over the instances.
\<close>

definition parse_zap_alert :: "pyval \<Rightarrow> error + finding" where
  "parse_zap_alert alert =
     (case alert of
        PDict d \<Rightarrow>
          bind (risk_of_riskdesc (dict_get_default ''riskdesc'' (PStr ''Unknown'') d)) (\<lambda>r.
          bind (py_len (dict_get_default ''instances'' (PList []) d)) (\<lambda>n.
          bind (py_iter (dict_get_default ''instances'' (PList []) d)) (\<lambda>insts.
          bind (map_result (\<lambda>inst. py_get inst ''uri'' (PStr [])) insts) (\<lambda>us.
          Inr \<lparr>finding_id = dict_get_default ''pluginid'' (PStr ''unknown'') d,
               name = dict_get_default ''name'' (PStr ''Unknown Alert'') d,
               risk = r,
               confidence = dict_get_default ''confidence'' (PStr ''Unknown'') d,
               description = dict_get_default ''desc'' (PStr []) d,
               solution = dict_get_default ''solution'' (PStr []) d,
               reference = dict_get_default ''reference'' (PStr []) d,
               instances = n,
               urls = us,
               cwe_id = dict_get_default ''cweid'' (PStr []) d,
               wasc_id = dict_get_default ''wascid'' (PStr []) d,
               source = ''ZAP''\<rparr>))))
      | _ \<Rightarrow> Inl AttributeError)"

section \<open>The XML normalizer\<close>

text \<open>
  An \<^verbatim>\<open>ElementTree\<close> element: its tag, its \<^verbatim>\<open>text\<close> (\<^verbatim>\<open>None\<close> for an element without
  text, such as an empty \<^verbatim>\<open>riskcode\<close> element) and its children in document order.
\<close>

datatype xml = Element (tag: string) (elem_text: "string option") (children: "xml list")

text \<open>\<^verbatim>\<open>e.find(t)\<close>: the first child with that tag, or \<^verbatim>\<open>None\<close>.\<close>

definition find_child :: "string \<Rightarrow> xml \<Rightarrow> xml option" where
  "find_child t e = List.find (\<lambda>c. tag c = t) (children e)"

text \<open>\<^verbatim>\<open>e.findall(t)\<close>: all children with that tag.\<close>

definition findall_children :: "string \<Rightarrow> xml \<Rightarrow> xml list" where
  "findall_children t e = filter (\<lambda>c. tag c = t) (children e)"

text \<open>\<^verbatim>\<open>e.findall('a/b')\<close>: the children tagged \<open>b\<close> of the children tagged \<open>a\<close>.\<close>

definition findall_path2 :: "string \<Rightarrow> string \<Rightarrow> xml \<Rightarrow> xml list" where
  "findall_path2 a b e = concat (map (findall_children b) (findall_children a e))"

text \<open>All elements strictly below an element, in document order.\<close>

fun descendants :: "xml \<Rightarrow> xml list" where
  "descendants (Element t x cs) = concat (map (\<lambda>c. c # descendants c) cs)"

text \<open>
  \<^verbatim>\<open>e.findall('.//t')\<close>: every element below \<open>e\<close> with that tag; \<open>e\<close> itself is never
  part of the result.
\<close>

definition findall_descendants :: "string \<Rightarrow> xml \<Rightarrow> xml list" where
  "findall_descendants t e = filter (\<lambda>c. tag c = t) (descendants e)"

text \<open>The \<^verbatim>\<open>text\<close> attribute as a value.\<close>

definition text_value :: "xml \<Rightarrow> pyval" where
  "text_value e = (case elem_text e of None \<Rightarrow> PNone | Some s \<Rightarrow> PStr s)"

text \<open>\<^verbatim>\<open>alert.find(t).text if alert.find(t) is not None else default\<close>.\<close>

definition child_text :: "string \<Rightarrow> pyval \<Rightarrow> xml \<Rightarrow> pyval" where
  "child_text t dflt e = (case find_child t e of None \<Rightarrow> dflt | Some c \<Rightarrow> text_value c)"

definition risk_map_xml :: "(string \<times> string) list" where
  "risk_map_xml =
     [(''3'', ''high''), (''2'', ''medium''), (''1'', ''low''), (''0'', ''informational'')]"

text \<open>
  \<^verbatim>\<open>risk_map.get(key, 'unknown')\<close> where the key may be \<^verbatim>\<open>None\<close>: the keys of the map are
  strings, so \<^verbatim>\<open>None\<close> is not among them.
\<close>

definition risk_of_riskcode :: "pyval \<Rightarrow> string" where
  "risk_of_riskcode key =
     (case key of PStr s \<Rightarrow> dict_get_default s ''unknown'' risk_map_xml | _ \<Rightarrow> ''unknown'')"

text \<open>
  \<^verbatim>\<open>[inst.find('uri').text for inst in instances if inst.find('uri') is not None]\<close>
\<close>

fun instance_uris :: "xml list \<Rightarrow> pyval list" where
  "instance_uris [] = []"
| "instance_uris (inst # insts) =
     (case find_child ''uri'' inst of
        None \<Rightarrow> instance_uris insts
      | Some u \<Rightarrow> text_value u # instance_uris insts)"

text \<open>\<^verbatim>\<open>_parse_zap_xml_alert\<close>. No step of it can raise.\<close>

definition parse_zap_xml_alert :: "xml \<Rightarrow> finding" where
  "parse_zap_xml_alert alert =
     (let r = risk_of_riskcode (child_text ''riskcode'' (PStr ''0'') alert);
          insts = findall_path2 ''instances'' ''instance'' alert
      in \<lparr>finding_id = child_text ''pluginid'' (PStr ''unknown'') alert,
          name = child_text ''name'' (PStr ''Unknown Alert'') alert,
          risk = r,
          confidence = child_text ''confidence'' (PStr ''Unknown'') alert,
          description = child_text ''desc'' (PStr []) alert,
          solution = child_text ''solution'' (PStr []) alert,
          reference = child_text ''reference'' (PStr []) alert,
          instances = length insts,
          urls = instance_uris insts,
          cwe_id = child_text ''cweid'' (PStr []) alert,
          wasc_id = child_text ''wascid'' (PStr []) alert,
          source = ''ZAP''\<rparr>)"

section \<open>Recommendation records\<close>

text \<open>
  The dictionary \<^verbatim>\<open>generate_recommendations\<close> builds for one group; \<open>rec_risk\<close>,
  \<open>rec_description\<close>, \<open>rec_solution\<close> and \<open>rec_cwe_id\<close> are its keys \<^verbatim>\<open>risk\<close>,
  \<^verbatim>\<open>description\<close>, \<^verbatim>\<open>solution\<close> and \<^verbatim>\<open>cwe_id\<close>.
\<close>

record recommendation =
  priority :: string
  finding_type :: pyval
  count :: nat
  rec_risk :: string
  rec_description :: pyval
  rec_solution :: pyval
  affected_urls :: "pyval list"
  rec_cwe_id :: pyval

section \<open>The analyzer and its environment\<close>

text \<open>The fields \<^verbatim>\<open>__init__\<close> sets on a \<^verbatim>\<open>SecurityReportAnalyzer\<close>.\<close>

record analyzer =
  reports_dir :: string
  findings :: "finding list"
  recommendations :: "recommendation list"
  risk_summary :: risk_summary

definition init_analyzer :: "string \<Rightarrow> analyzer" where
  "init_analyzer dir =
     \<lparr>reports_dir = dir, findings = [], recommendations = [],
      risk_summary = init_risk_summary\<rparr>"

text \<open>
  The document \<^verbatim>\<open>generate_detailed_report\<close> writes, section by section: the time stamp, the
  executive summary, the rows of the risk table (label, count, percentage), the
  recommendations of the priority section and the findings of the detailed section. The
  layout of the text around these values is not modelled.
\<close>

record document =
  generated :: string
  executive_summary :: string
  risk_table :: "(string \<times> int \<times> rat) list"
  priority_recommendations :: "recommendation list"
  detailed_findings :: "finding list"

text \<open>
  What a file holds, as its readers see it: \<^verbatim>\<open>json.load\<close> succeeds on a JSON document only,
  \<^verbatim>\<open>ET.parse\<close> on an XML document only.
\<close>

datatype content = JsonDoc pyval | XmlDoc xml | Report document | Unreadable

datatype node = Directory "string list" | File content

text \<open>The lines the analyzer prints, without their wording.\<close>

datatype message =
    Scanning string
  | DirNotFound string
  | AnalyzingJson string
  | AnalyzingXml string
  | FoundAlerts nat
  | NoAlertsFound
  | ErrorJson error
  | ErrorXml error
  | AnalysisComplete nat
  | GeneratingRecommendations
  | GeneratingReport string
  | Summary string
  | ReportSaved string

text \<open>
  The environment of a run: the file system (a path leads to a directory with its listing,
  to a file, or to nothing), the paths that cannot be opened for writing, the console, the
  clock as \<^verbatim>\<open>strftime\<close> prints it, and the order in which this interpreter's \<^verbatim>\<open>set\<close>
  hands back the members it was built from.
\<close>

record world =
  filesystem :: "string \<Rightarrow> node option"
  write_protected :: "string \<Rightarrow> bool"
  console :: "message list"
  clock :: string
  set_order :: "pyval list \<Rightarrow> pyval list"

definition print :: "message \<Rightarrow> world \<Rightarrow> world" where
  "print m w = w\<lparr>console := console w @ [m]\<rparr>"

section \<open>Reading the reports\<close>

text \<open>\<^verbatim>\<open>p in s\<close> for strings: \<open>p\<close> occurs in \<open>s\<close>.\<close>

fun is_substring :: "string \<Rightarrow> string \<Rightarrow> bool" where
  "is_substring p [] = (p = [])"
| "is_substring p (x # xs) = (take (length p) (x # xs) = p \<or> is_substring p xs)"

text \<open>
  \<^verbatim>\<open>k in v\<close> for a string \<open>k\<close>: a key of a dictionary, a member of a list, a substring of a
  string; \<^verbatim>\<open>None\<close> is not a container.
\<close>

definition py_in :: "string \<Rightarrow> pyval \<Rightarrow> error + bool" where
  "py_in k v =
     (case v of
        PNone \<Rightarrow> Inl TypeError
      | PStr s \<Rightarrow> Inr (is_substring k s)
      | PList xs \<Rightarrow> Inr (PStr k \<in> set xs)
      | PDict d \<Rightarrow> Inr (k \<in> set (map fst d)))"

text \<open>\<^verbatim>\<open>v[k]\<close> for a string \<open>k\<close>: only a dictionary can be indexed by a string.\<close>

definition py_getitem :: "string \<Rightarrow> pyval \<Rightarrow> error + pyval" where
  "py_getitem k v = (case v of PDict d \<Rightarrow> dict_get k d | _ \<Rightarrow> Inl TypeError)"

text \<open>
  \<^verbatim>\<open>v[0]\<close>: the first element of a list, the first character of a string; a dictionary has
  string keys only, so \<open>0\<close> is a missing key.
\<close>

definition py_index0 :: "pyval \<Rightarrow> error + pyval" where
  "py_index0 v =
     (case v of
        PNone \<Rightarrow> Inl TypeError
      | PStr s \<Rightarrow> bind (index0 (code_points s)) (\<lambda>c. Inr (PStr c))
      | PList xs \<Rightarrow> index0 xs
      | PDict d \<Rightarrow> Inl KeyError)"

text \<open>
  Lines 38 and 39 of \<^verbatim>\<open>analyze_zap_json_report\<close>: the alerts of the first site, or nothing
  when the \<^verbatim>\<open>else\<close> branch is taken.
  \<^verbatim>\<open>if 'site' in data and len(data['site']) > 0: alerts = data['site'][0].get('alerts', [])\<close>
\<close>

definition first_site_alerts :: "pyval \<Rightarrow> error + pyval option" where
  "first_site_alerts data =
     bind (py_in ''site'' data) (\<lambda>has_site.
       if \<not> has_site then Inr None
       else bind (py_getitem ''site'' data) (\<lambda>site.
            bind (py_len site) (\<lambda>n.
              if n > 0
              then bind (py_index0 site) (\<lambda>site0.
                   bind (py_get site0 ''alerts'' (PList [])) (\<lambda>alerts. Inr (Some alerts)))
              else Inr None)))"

text \<open>
  What both report loops do with a finding:
  \<^verbatim>\<open>self.findings.append(finding); self._update_risk_summary(finding['risk'])\<close>
\<close>

definition add_finding :: "analyzer \<Rightarrow> finding \<Rightarrow> analyzer" where
  "add_finding a f =
     a\<lparr>findings := findings a @ [f],
       risk_summary := update_risk_summary (risk f) (risk_summary a)\<rparr>"

text \<open>
  The loop over the alerts of a JSON report. An alert that cannot be parsed raises; the
  findings added before it stay in the analyzer.
\<close>

fun json_alert_loop :: "pyval list \<Rightarrow> analyzer \<Rightarrow> error option \<times> analyzer" where
  "json_alert_loop [] a = (None, a)"
| "json_alert_loop (alert # alerts) a =
     (case parse_zap_alert alert of
        Inl e \<Rightarrow> (Some e, a)
      | Inr f \<Rightarrow> json_alert_loop alerts (add_finding a f))"

text \<open>\<^verbatim>\<open>open\<close> and \<^verbatim>\<open>json.load\<close>.\<close>

definition read_json :: "world \<Rightarrow> string \<Rightarrow> error + pyval" where
  "read_json w path =
     (case filesystem w path of
        Some (File (JsonDoc v)) \<Rightarrow> Inr v
      | Some (File _) \<Rightarrow> Inl ValueError
      | _ \<Rightarrow> Inl OSError)"

text \<open>\<^verbatim>\<open>ET.parse\<close> and \<^verbatim>\<open>getroot\<close>.\<close>

definition read_xml :: "world \<Rightarrow> string \<Rightarrow> error + xml" where
  "read_xml w path =
     (case filesystem w path of
        Some (File (XmlDoc r)) \<Rightarrow> Inr r
      | Some (File _) \<Rightarrow> Inl ValueError
      | _ \<Rightarrow> Inl OSError)"

text \<open>
  \<^verbatim>\<open>analyze_zap_json_report\<close>. Every exception of the body is caught and printed, so the
  function always returns; what the loop added before an exception is kept.
\<close>

definition analyze_zap_json_report :: "string \<Rightarrow> world \<times> analyzer \<Rightarrow> world \<times> analyzer" where
  "analyze_zap_json_report json_file wa =
     (case wa of (w, a) \<Rightarrow>
        (case read_json w json_file of
           Inl e \<Rightarrow> (print (ErrorJson e) w, a)
         | Inr data \<Rightarrow>
             (let w1 = print (AnalyzingJson json_file) w
              in case first_site_alerts data of
                   Inl e \<Rightarrow> (print (ErrorJson e) w1, a)
                 | Inr None \<Rightarrow> (print NoAlertsFound w1, a)
                 | Inr (Some alerts) \<Rightarrow>
                     (case py_iter alerts of
                        Inl e \<Rightarrow> (print (ErrorJson e) w1, a)
                      | Inr items \<Rightarrow>
                          (case json_alert_loop items a of
                             (Some e, a') \<Rightarrow> (print (ErrorJson e) w1, a')
                           | (None, a') \<Rightarrow>
                               (case py_len alerts of
                                  Inl e \<Rightarrow> (print (ErrorJson e) w1, a')
                                | Inr n \<Rightarrow> (print (FoundAlerts n) w1, a')))))))"

text \<open>\<^verbatim>\<open>analyze_zap_xml_report\<close>. Once the file is parsed nothing can raise.\<close>

definition analyze_zap_xml_report :: "string \<Rightarrow> world \<times> analyzer \<Rightarrow> world \<times> analyzer" where
  "analyze_zap_xml_report xml_file wa =
     (case wa of (w, a) \<Rightarrow>
        (case read_xml w xml_file of
           Inl e \<Rightarrow> (print (ErrorXml e) w, a)
         | Inr tree_root \<Rightarrow>
             (let w1 = print (AnalyzingXml xml_file) w;
                  alerts = findall_descendants ''alertitem'' tree_root;
                  a' = foldl (\<lambda>a alert. add_finding a (parse_zap_xml_alert alert)) a alerts
              in (print (FoundAlerts (length alerts)) w1, a'))))"

section \<open>The recommendation engine\<close>

text \<open>
  The dictionary \<^verbatim>\<open>finding_types\<close>: finding name to the findings of that name, keys in the
  order of their first insertion. One step of the grouping loop:
  \<^verbatim>\<open>if finding_type not in finding_types: finding_types[finding_type] = []\<close>
  \<^verbatim>\<open>finding_types[finding_type].append(finding)\<close>
\<close>

fun dict_append :: "pyval \<Rightarrow> finding \<Rightarrow> (pyval \<times> finding list) list
    \<Rightarrow> (pyval \<times> finding list) list" where
  "dict_append k f [] = [(k, [f])]"
| "dict_append k f ((k', fs) # d) =
     (if k = k' then (k', fs @ [f]) # d else (k', fs) # dict_append k f d)"

text \<open>The grouping loop. A name that is a list or a dictionary cannot be a key.\<close>

fun group_findings :: "finding list \<Rightarrow> (pyval \<times> finding list) list
    \<Rightarrow> error + (pyval \<times> finding list) list" where
  "group_findings [] d = Inr d"
| "group_findings (f # fs) d =
     (if hashable (name f) then group_findings fs (dict_append (name f) f d)
      else Inl TypeError)"

text \<open>Lines 148 to 153: the priority tier from the risk of the first member.\<close>

definition priority_of :: "string \<Rightarrow> string" where
  "priority_of r =
     (if r \<in> set [''critical'', ''high''] then ''HIGH''
      else if r = ''medium'' then ''MEDIUM''
      else ''LOW'')"

text \<open>
  Line 160:
  \<^verbatim>\<open>d[:200] + '...' if len(d) > 200 else d\<close>.
  \<^verbatim>\<open>len(None)\<close> raises; a string of more than 200 code points is cut after the 200th; a
  list of more than 200 elements can be sliced but not joined with a string, a dictionary
  cannot be sliced.
\<close>

definition truncate_description :: "pyval \<Rightarrow> error + pyval" where
  "truncate_description d =
     bind (py_len d) (\<lambda>n.
       if n > 200
       then (case d of
               PStr s \<Rightarrow> Inr (PStr (concat (take 200 (code_points s)) @ ''...''))
             | _ \<Rightarrow> Inl TypeError)
       else Inr d)"

text \<open>
  Line 162:
  \<^verbatim>\<open>list(set([url for finding in findings for url in finding['urls']]))[:5]\<close>.
  The order of a \<^verbatim>\<open>set\<close> is the interpreter's; it is the parameter \<open>order\<close>.
\<close>

definition sample_urls :: "(pyval list \<Rightarrow> pyval list) \<Rightarrow> finding list \<Rightarrow> error + pyval list" where
  "sample_urls order fs =
     (let all_urls = concat (map urls fs)
      in if list_all hashable all_urls then Inr (take 5 (order all_urls)) else Inl TypeError)"

text \<open>The body of the loop over \<^verbatim>\<open>finding_types.items()\<close>, for one group.\<close>

definition make_recommendation ::
    "(pyval list \<Rightarrow> pyval list) \<Rightarrow> pyval \<times> finding list \<Rightarrow> error + recommendation" where
  "make_recommendation order item =
     (case item of (ftype, fs) \<Rightarrow>
        bind (index0 fs) (\<lambda>first.
        bind (truncate_description (description first)) (\<lambda>d.
        bind (sample_urls order fs) (\<lambda>us.
        Inr \<lparr>priority = priority_of (risk first),
             finding_type = ftype,
             count = length fs,
             rec_risk = risk first,
             rec_description = d,
             rec_solution = solution first,
             affected_urls = us,
             rec_cwe_id = cwe_id first\<rparr>))))"

definition priority_order :: "(string \<times> nat) list" where
  "priority_order = [(''HIGH'', 0), (''MEDIUM'', 1), (''LOW'', 2)]"

definition risk_order :: "(string \<times> nat) list" where
  "risk_order =
     [(''critical'', 0), (''high'', 1), (''medium'', 2), (''low'', 3), (''informational'', 4)]"

text \<open>
  The key of the final sort:
  \<^verbatim>\<open>(priority_order.get(x['priority'], 3), risk_order.get(x['risk'], 5))\<close>,
  a pair compared lexicographically.
\<close>

definition sort_key_of :: "recommendation \<Rightarrow> nat \<times> nat" where
  "sort_key_of x =
     (dict_get_default (priority x) 3 priority_order,
      dict_get_default (rec_risk x) 5 risk_order)"

text \<open>
  \<^verbatim>\<open>generate_recommendations\<close>. The new recommendations are appended to
  \<^verbatim>\<open>self.recommendations\<close>, whatever it holds, and the whole list is sorted; \<^verbatim>\<open>list.sort\<close> is
  stable, as \<open>sort_key\<close> is. An exception leaves the function and is not caught by any
  caller, so nothing of the analyzer is returned then.
\<close>

definition generate_recommendations ::
    "(pyval list \<Rightarrow> pyval list) \<Rightarrow> analyzer \<Rightarrow> error + analyzer" where
  "generate_recommendations order a =
     bind (group_findings (findings a) []) (\<lambda>finding_types.
     bind (map_result (make_recommendation order) finding_types) (\<lambda>new.
     Inr (a\<lparr>recommendations := sort_key sort_key_of (recommendations a @ new)\<rparr>)))"

section \<open>The executive summary\<close>

text \<open>\<^verbatim>\<open>str(n)\<close> for an integer, as an f-string prints it.\<close>

definition digit_char :: "nat \<Rightarrow> char" where
  "digit_char n = char_of (48 + n)"

function str_nat :: "nat \<Rightarrow> string" where
  "str_nat n = (if n < 10 then [digit_char n] else str_nat (n div 10) @ [digit_char (n mod 10)])"
  by pat_completeness auto
termination
  by (relation "measure (\<lambda>n. n)") auto

definition str_int :: "int \<Rightarrow> string" where
  "str_int i = (if i < 0 then CHR ''-'' # str_nat (nat (- i)) else str_nat (nat i))"

text \<open>The three symbols that open the status lines, as their UTF-8 bytes.\<close>

definition check_mark :: string where
  "check_mark = [CHR 0xE2, CHR 0x9C, CHR 0x85]"

definition warning_sign :: string where
  "warning_sign = [CHR 0xE2, CHR 0x9A, CHR 0xA0, CHR 0xEF, CHR 0xB8, CHR 0x8F]"

definition rotating_light :: string where
  "rotating_light = [CHR 0xF0, CHR 0x9F, CHR 0x9A, CHR 0xA8]"

definition msg_excellent :: string where
  "msg_excellent = check_mark @
     '' **EXCELLENT**: No security vulnerabilities were identified during the assessment.''"

definition msg_good :: string where
  "msg_good = check_mark @ '' **GOOD**: No critical or high-risk vulnerabilities found.''"

definition msg_attention :: string where
  "msg_attention = warning_sign @
     '' **ATTENTION REQUIRED**: Few high-risk vulnerabilities identified.''"

definition msg_immediate :: string where
  "msg_immediate = rotating_light @
     '' **IMMEDIATE ACTION REQUIRED**: Multiple high-risk vulnerabilities found.''"

definition newline :: string where
  "newline = [CHR 0x0A]"

text \<open>The f-string of lines 190 to 201.\<close>

definition summary_text :: "string \<Rightarrow> int \<Rightarrow> int \<Rightarrow> int \<Rightarrow> int \<Rightarrow> int \<Rightarrow> int \<Rightarrow> string" where
  "summary_text status c h m l i total' =
     newline @ status @ newline @ newline
     @ ''**Risk Distribution:**'' @ newline
     @ ''- Critical: '' @ str_int c @ newline
     @ ''- High: '' @ str_int h @ newline
     @ ''- Medium: '' @ str_int m @ newline
     @ ''- Low: '' @ str_int l @ newline
     @ ''- Informational: '' @ str_int i @ newline @ newline
     @ ''**Total Findings:** '' @ str_int total' @ newline"

text \<open>
  Lines 181 to 188: the status line from the number of critical and high findings, once the
  total is known not to be zero.
\<close>

definition status_line :: "int \<Rightarrow> string" where
  "status_line critical_high =
     (if critical_high = 0 then msg_good
      else if critical_high \<le> 3 then msg_attention
      else msg_immediate)"

text \<open>
  \<^verbatim>\<open>generate_executive_summary\<close>. \<^verbatim>\<open>self.risk_summary[k]\<close> raises \<^verbatim>\<open>KeyError\<close> for a missing
  key. The status line is chosen before the f-string looks up the other keys.
\<close>

definition generate_executive_summary :: "risk_summary \<Rightarrow> error + string" where
  "generate_executive_summary rs =
     (let total_findings = sum_values rs
      in if total_findings = 0 then Inr msg_excellent
         else bind (dict_get ''critical'' rs) (\<lambda>c.
              bind (dict_get ''high'' rs) (\<lambda>h.
              bind (dict_get ''medium'' rs) (\<lambda>m.
              bind (dict_get ''low'' rs) (\<lambda>l.
              bind (dict_get ''informational'' rs) (\<lambda>i.
              Inr (summary_text (status_line (c + h)) c h m l i total_findings)))))))"

section \<open>The detailed report\<close>

text \<open>ASCII letters; \<^verbatim>\<open>str.lower\<close> and \<^verbatim>\<open>str.title\<close> on ASCII text.\<close>

definition is_upper :: "char \<Rightarrow> bool" where
  "is_upper c = (65 \<le> (of_char c :: nat) \<and> (of_char c :: nat) \<le> 90)"

definition is_lower :: "char \<Rightarrow> bool" where
  "is_lower c = (97 \<le> (of_char c :: nat) \<and> (of_char c :: nat) \<le> 122)"

definition to_lower :: "char \<Rightarrow> char" where
  "to_lower c = (if is_upper c then char_of ((of_char c :: nat) + 32) else c)"

definition to_upper :: "char \<Rightarrow> char" where
  "to_upper c = (if is_lower c then char_of ((of_char c :: nat) - 32) else c)"

definition lower :: "string \<Rightarrow> string" where
  "lower s = map to_lower s"

fun title_from :: "bool \<Rightarrow> string \<Rightarrow> string" where
  "title_from prev [] = []"
| "title_from prev (c # cs) =
     (if is_upper c \<or> is_lower c
      then (if prev then to_lower c else to_upper c) # title_from True cs
      else c # title_from False cs)"

definition title :: "string \<Rightarrow> string" where
  "title s = title_from False s"

text \<open>
  Line 224: \<^verbatim>\<open>percentage = (count / total * 100) if total > 0 else 0\<close>.
  Python computes the quotient in binary floating point; here it is the exact rational
  number, which the floating-point value approximates.
\<close>

definition percentage :: "int \<Rightarrow> int \<Rightarrow> rat" where
  "percentage cnt total' = (if total' > 0 then of_int cnt / of_int total' * 100 else 0)"


text \<open>Lines 222 to 225: one row per entry of the summary, in the order of its keys.\<close>

definition risk_table_rows :: "risk_summary \<Rightarrow> (string \<times> int \<times> rat) list" where
  "risk_table_rows rs =
     (let total' = sum_values rs
      in map (\<lambda>(r, cnt). (title r, cnt, percentage cnt total')) rs)"

text \<open>
  \<^verbatim>\<open>generate_detailed_report\<close>. \<^verbatim>\<open>open(output_file, 'w')\<close> fails on a directory and on a
  path that cannot be written; the file is replaced otherwise. The priority section shows
  the first ten recommendations of priority HIGH.
\<close>

definition generate_detailed_report :: "string \<Rightarrow> world \<times> analyzer \<Rightarrow> error + world" where
  "generate_detailed_report output_file wa =
     (case wa of (w, a) \<Rightarrow>
        (let w1 = print (GeneratingReport output_file) w
         in if write_protected w1 output_file then Inl OSError
            else (case filesystem w1 output_file of
                    Some (Directory _) \<Rightarrow> Inl OSError
                  | _ \<Rightarrow>
                      bind (generate_executive_summary (risk_summary a)) (\<lambda>s.
                        Inr (w1\<lparr>filesystem := (filesystem w1)(output_file \<mapsto> File (Report
                               \<lparr>generated = clock w1,
                                executive_summary = s,
                                risk_table = risk_table_rows (risk_summary a),
                                priority_recommendations =
                                  take 10 (filter (\<lambda>r. priority r = ''HIGH'') (recommendations a)),
                                detailed_findings = findings a\<rparr>))\<rparr>)))))"

section \<open>The run\<close>

text \<open>\<^verbatim>\<open>s.endswith(suffix)\<close>.\<close>

definition endswith :: "string \<Rightarrow> string \<Rightarrow> bool" where
  "endswith s suffix =
     (length suffix \<le> length s \<and> drop (length s - length suffix) s = suffix)"

text \<open>\<^verbatim>\<open>os.path.join(a, b)\<close> on POSIX.\<close>

definition path_join :: "string \<Rightarrow> string \<Rightarrow> string" where
  "path_join a b =
     (if take 1 b = ''/'' then b
      else if a = [] \<or> last a = CHR ''/'' then a @ b
      else a @ ''/'' @ b)"

text \<open>The body of the loop over \<^verbatim>\<open>os.listdir(self.reports_dir)\<close>, lines 275 to 280.\<close>

definition scan_file :: "string \<Rightarrow> world \<times> analyzer \<Rightarrow> world \<times> analyzer" where
  "scan_file filename wa =
     (let filepath = path_join (reports_dir (snd wa)) filename
      in if endswith filename ''.json'' \<and> is_substring ''zap'' (lower filename)
         then analyze_zap_json_report filepath wa
         else if endswith filename ''.xml'' \<and> is_substring ''zap'' (lower filename)
         then analyze_zap_xml_report filepath wa
         else wa)"

text \<open>
  \<^verbatim>\<open>analyze_all_reports\<close>. \<^verbatim>\<open>os.path.exists\<close> holds for a directory and for a file;
  \<^verbatim>\<open>os.listdir\<close> raises on a file. The exceptions of the recommendation engine and of the
  report writer are not caught.
\<close>

definition analyze_all_reports :: "world \<times> analyzer \<Rightarrow> error + world \<times> analyzer" where
  "analyze_all_reports wa =
     (case wa of (w, a) \<Rightarrow>
        (let w1 = print (Scanning (reports_dir a)) w
         in case filesystem w1 (reports_dir a) of
              None \<Rightarrow> Inr (print (DirNotFound (reports_dir a)) w1, a)
            | Some (File _) \<Rightarrow> Inl OSError
            | Some (Directory filenames) \<Rightarrow>
                (case foldl (\<lambda>s filename. scan_file filename s) (w1, a) filenames of
                   (w2, a2) \<Rightarrow>
                     (let w3 = print GeneratingRecommendations
                                 (print (AnalysisComplete (length (findings a2))) w2);
                          output_file = path_join (reports_dir a) ''security-analysis-report.md''
                      in bind (generate_recommendations (set_order w3) a2) (\<lambda>a3.
                         bind (generate_detailed_report output_file (w3, a3)) (\<lambda>w4.
                         bind (generate_executive_summary (risk_summary a3)) (\<lambda>s.
                         Inr (print (ReportSaved output_file) (print (Summary s) w4), a3))))))))"

section \<open>Valid reports\<close>

text \<open>
  The reports the cardinality properties are about. A valid alert of the JSON encoding is an
  object whose \<^verbatim>\<open>riskdesc\<close>, if present, is a string and whose \<^verbatim>\<open>instances\<close>, if present, is
  an array of objects. A valid JSON report is an object whose \<^verbatim>\<open>site\<close> is an array that
  starts with an object holding the array \<^verbatim>\<open>alerts\<close> of valid alerts. \<open>instances_length\<close> is
  the length of the \<^verbatim>\<open>instances\<close> array of an alert, 0 when there is none.
\<close>

definition instances_length :: "pyval \<Rightarrow> nat" where
  "instances_length alert =
     (case alert of
        PDict d \<Rightarrow> (case dict_get_default ''instances'' (PList []) d of
                      PList insts \<Rightarrow> length insts | _ \<Rightarrow> 0)
      | _ \<Rightarrow> 0)"

fun is_dict :: "pyval \<Rightarrow> bool" where
  "is_dict (PDict _) = True"
| "is_dict _ = False"

definition valid_alert :: "pyval \<Rightarrow> bool" where
  "valid_alert alert =
     (case alert of
        PDict d \<Rightarrow>
          (case map_of d ''riskdesc'' of None \<Rightarrow> True | Some (PStr _) \<Rightarrow> True | _ \<Rightarrow> False)
          \<and> (case map_of d ''instances'' of
                None \<Rightarrow> True | Some (PList insts) \<Rightarrow> list_all is_dict insts | _ \<Rightarrow> False)
      | _ \<Rightarrow> False)"

definition valid_json_report :: "pyval \<Rightarrow> pyval list \<Rightarrow> bool" where
  "valid_json_report data alerts =
     (case data of
        PDict d \<Rightarrow>
          (case map_of d ''site'' of
             Some (PList sites) \<Rightarrow>
               (case sites of
                  PDict site0 # _ \<Rightarrow>
                    map_of site0 ''alerts'' = Some (PList alerts) \<and> list_all valid_alert alerts
                | _ \<Rightarrow> False)
           | _ \<Rightarrow> False)
      | _ \<Rightarrow> False)"

section \<open>Groups in first-seen order\<close>

text \<open>
  The distinct elements of a list in the order of their first occurrence, and the groups the
  recommendation properties speak of: one per distinct finding name, in first-seen order, each
  with the findings of that name in discovery order.
\<close>

fun first_seen :: "'a list \<Rightarrow> 'a list" where
  "first_seen [] = []"
| "first_seen (x # xs) = x # removeAll x (first_seen xs)"

definition groups_of :: "finding list \<Rightarrow> (pyval \<times> finding list) list" where
  "groups_of fs = map (\<lambda>k. (k, filter (\<lambda>f. name f = k) fs)) (first_seen (map name fs))"


section \<open>Example data\<close>

text \<open>
  A finding with a given name, risk and description and one location, an analyzer that has
  ingested a list of findings, and an environment with an empty file system.
\<close>

definition example_finding :: "string \<Rightarrow> string \<Rightarrow> pyval \<Rightarrow> finding" where
  "example_finding n r d =
     \<lparr>finding_id = PStr ''10021'', name = PStr n, risk = r, confidence = PStr ''Medium'',
      description = d, solution = PStr ''Fix it.'', reference = PStr [],
      instances = 1, urls = [PStr ''http://localhost:3000/''], cwe_id = PStr ''693'',
      wasc_id = PStr ''15'', source = ''ZAP''\<rparr>"

definition example_analyzer :: "finding list \<Rightarrow> analyzer" where
  "example_analyzer fs = foldl add_finding (init_analyzer ''./security/reports'') fs"

definition example_recommendation :: "string \<Rightarrow> string \<Rightarrow> nat \<Rightarrow> string \<Rightarrow> recommendation" where
  "example_recommendation p n c r =
     \<lparr>priority = p, finding_type = PStr n, count = c, rec_risk = r,
      rec_description = PStr ''Text.'', rec_solution = PStr ''Fix it.'',
      affected_urls = [PStr ''http://localhost:3000/''], rec_cwe_id = PStr ''693''\<rparr>"

section \<open>Properties of the normalizers\<close>

lemma bind_Inr_iff: "bind m f = Inr y \<longleftrightarrow> (\<exists>v. m = Inr v \<and> f v = Inr y)"
  by (cases m) (simp_all add: bind_def)

lemma bind_Inl_iff: "bind m f = Inl e \<longleftrightarrow> m = Inl e \<or> (\<exists>v. m = Inr v \<and> f v = Inl e)"
  by (cases m) (simp_all add: bind_def)

lemma bind_Inr [simp]: "bind (Inr v) f = f v"
  by (simp add: bind_def)

lemma bind_Inl [simp]: "bind (Inl e) f = Inl e"
  by (simp add: bind_def)

lemma map_result_length: "map_result f xs = Inr ys \<Longrightarrow> length ys = length xs"
proof (induction xs arbitrary: ys)
  case Nil
  then show ?case by simp
next
  case (Cons x xs)
  from Cons.prems obtain y ys' where "map_result f xs = Inr ys'" and "ys = y # ys'"
    by (auto simp: bind_Inr_iff)
  with Cons.IH show ?case by simp
qed

lemma map_result_total:
  "(\<And>x. x \<in> set xs \<Longrightarrow> f x = Inr (g x)) \<Longrightarrow> map_result f xs = Inr (map g xs)"
  by (induction xs) simp_all

lemma split_on_nonempty: "split_on c s \<noteq> []"
  by (induction s) (auto split: list.splits)

lemma hd_split_on: "hd (split_on c s) = takeWhile (\<lambda>x. x \<noteq> c) s"
  by (induction s) (auto split: list.splits simp: split_on_nonempty)

lemma index0_split_on: "index0 (split_on c s) = Inr (takeWhile (\<lambda>x. x \<noteq> c) s)"
proof (cases "split_on c s")
  case Nil
  then show ?thesis by (simp add: split_on_nonempty)
next
  case (Cons w ws)
  then have "w = takeWhile (\<lambda>x. x \<noteq> c) s"
    using hd_split_on [of c s] by simp
  with Cons show ?thesis by (simp add: index0_def)
qed

lemma risk_of_riskdesc_str:
  "risk_of_riskdesc (PStr s) =
     Inr (dict_get_default (takeWhile (\<lambda>x. x \<noteq> CHR '' '') s) ''unknown'' risk_map_json)"
  by (simp add: risk_of_riskdesc_def index0_split_on)



lemma risk_parse_zap_xml_alert:
  "risk (parse_zap_xml_alert alert) = risk_of_riskcode (child_text ''riskcode'' (PStr ''0'') alert)"
  by (simp add: parse_zap_xml_alert_def Let_def)

lemma parse_zap_alert_Inr:
  assumes "parse_zap_alert alert = Inr f"
  obtains d r insts where "alert = PDict d"
    and "risk_of_riskdesc (dict_get_default ''riskdesc'' (PStr ''Unknown'') d) = Inr r"
    and "py_len (dict_get_default ''instances'' (PList []) d) = Inr (instances f)"
    and "py_iter (dict_get_default ''instances'' (PList []) d) = Inr insts"
    and "map_result (\<lambda>inst. py_get inst ''uri'' (PStr [])) insts = Inr (urls f)"
    and "risk f = r"
    and "name f = dict_get_default ''name'' (PStr ''Unknown Alert'') d"
proof (cases alert)
  case (PDict d)
  with assms show ?thesis
    by (auto simp: parse_zap_alert_def bind_Inr_iff intro: that)
qed (use assms in \<open>simp_all add: parse_zap_alert_def\<close>)


lemma py_len_iter: "py_len v = Inr n \<Longrightarrow> py_iter v = Inr xs \<Longrightarrow> n = length xs"
  by (cases v) (auto simp: py_len_def py_iter_def)

lemma json_instances_urls:
  assumes "parse_zap_alert alert = Inr f"
  shows "instances f = length (urls f)"
proof -
  from assms obtain d insts where
    "py_len (dict_get_default ''instances'' (PList []) d) = Inr (instances f)"
    and "py_iter (dict_get_default ''instances'' (PList []) d) = Inr insts"
    and "map_result (\<lambda>inst. py_get inst ''uri'' (PStr [])) insts = Inr (urls f)"
    by (rule parse_zap_alert_Inr)
  then show ?thesis
    using py_len_iter map_result_length by fastforce
qed

lemma length_instance_uris:
  "length (instance_uris insts) = length (filter (\<lambda>i. find_child ''uri'' i \<noteq> None) insts)"
  by (induction insts) (auto split: option.splits)

lemma length_filter_eq_iff: "length (filter P xs) = length xs \<longleftrightarrow> (\<forall>x \<in> set xs. P x)"
  by (metis filter_id_conv length_filter_less less_irrefl_nat)



text \<open>
  Claim C10. In the XML normalizer an \<^verbatim>\<open>alertitem\<close> without a \<^verbatim>\<open>riskcode\<close> child gets the
  risk \<^verbatim>\<open>informational\<close> (the code \<^verbatim>\<open>0\<close> stands in for the missing element), while an
  \<^verbatim>\<open>alertitem\<close> whose \<^verbatim>\<open>riskcode\<close> child is there but has no text gets \<^verbatim>\<open>unknown\<close>.
\<close>

theorem xml_missing_riskcode_informational:
  "(find_child ''riskcode'' alert = None \<longrightarrow>
      risk (parse_zap_xml_alert alert) = ''informational'')
   \<and> (\<forall>c. find_child ''riskcode'' alert = Some c \<and> elem_text c = None \<longrightarrow>
          risk (parse_zap_xml_alert alert) = ''unknown'')"
  by (simp add: risk_parse_zap_xml_alert child_text_def text_value_def risk_of_riskcode_def
      dict_get_default_def risk_map_xml_def)

theorem xml_missing_riskcode_informational_witness:
  "find_child ''riskcode'' (Element ''alertitem'' None [Element ''name'' (Some ''X'') []]) = None
   \<and> risk (parse_zap_xml_alert (Element ''alertitem'' None [Element ''name'' (Some ''X'') []]))
       = ''informational''
   \<and> find_child ''riskcode'' (Element ''alertitem'' None [Element ''riskcode'' None []])
       = Some (Element ''riskcode'' None [])
   \<and> elem_text (Element ''riskcode'' None []) = None
   \<and> risk (parse_zap_xml_alert (Element ''alertitem'' None [Element ''riskcode'' None []]))
       = ''unknown''"
  using xml_missing_riskcode_informational
    [of "Element ''alertitem'' None [Element ''name'' (Some ''X'') []]"]
    xml_missing_riskcode_informational
    [of "Element ''alertitem'' None [Element ''riskcode'' None []]"]
  by (simp add: find_child_def)

text \<open>
  Claim C2, as stated: every finding of either normalizer has \<open>instances\<close> equal to the
  length of \<open>urls\<close>. The XML normalizer breaks it: it counts every \<^verbatim>\<open>instance\<close> node but
  lists a location only for the nodes that have a \<^verbatim>\<open>uri\<close> child.
\<close>

theorem xml_instance_count_counterexample:
  "instances (parse_zap_xml_alert
      (Element ''alertitem'' None
         [Element ''instances'' None [Element ''instance'' None []]])) = 1
   \<and> urls (parse_zap_xml_alert
      (Element ''alertitem'' None
         [Element ''instances'' None [Element ''instance'' None []]])) = []"
  by (simp add: parse_zap_xml_alert_def Let_def findall_path2_def findall_children_def
      find_child_def)

text \<open>
  Claim C2, amended. A finding of the JSON normalizer has \<open>instances\<close> equal to the length
  of \<open>urls\<close>. A finding of the XML normalizer has \<open>instances\<close> equal to the number of
  \<^verbatim>\<open>instances/instance\<close> nodes and one entry in \<open>urls\<close> for each of those nodes that has
  a \<^verbatim>\<open>uri\<close> child: \<open>urls\<close> is never longer than \<open>instances\<close> says, and as long exactly
  when every instance node has a \<^verbatim>\<open>uri\<close> child.
\<close>

theorem instance_count_and_urls:
  "(\<forall>f. parse_zap_alert alert = Inr f \<longrightarrow> instances f = length (urls f))
   \<and> instances (parse_zap_xml_alert item)
       = length (findall_path2 ''instances'' ''instance'' item)
   \<and> length (urls (parse_zap_xml_alert item))
       = length (filter (\<lambda>i. find_child ''uri'' i \<noteq> None)
           (findall_path2 ''instances'' ''instance'' item))
   \<and> length (urls (parse_zap_xml_alert item)) \<le> instances (parse_zap_xml_alert item)
   \<and> (instances (parse_zap_xml_alert item) = length (urls (parse_zap_xml_alert item))
        \<longleftrightarrow> (\<forall>i \<in> set (findall_path2 ''instances'' ''instance'' item).
               find_child ''uri'' i \<noteq> None))"
proof -
  let ?insts = "findall_path2 ''instances'' ''instance'' item"
  have n: "instances (parse_zap_xml_alert item) = length ?insts"
    by (simp add: parse_zap_xml_alert_def Let_def)
  have u: "length (urls (parse_zap_xml_alert item))
             = length (filter (\<lambda>i. find_child ''uri'' i \<noteq> None) ?insts)"
    by (simp add: parse_zap_xml_alert_def Let_def length_instance_uris)
  have le: "length (urls (parse_zap_xml_alert item)) \<le> instances (parse_zap_xml_alert item)"
    by (simp only: n u length_filter_le)
  have eq: "instances (parse_zap_xml_alert item) = length (urls (parse_zap_xml_alert item))
        \<longleftrightarrow> (\<forall>i \<in> set ?insts. find_child ''uri'' i \<noteq> None)"
  proof -
    have "length ?insts = length (filter (\<lambda>i. find_child ''uri'' i \<noteq> None) ?insts)
        \<longleftrightarrow> (\<forall>i \<in> set ?insts. find_child ''uri'' i \<noteq> None)"
      using length_filter_eq_iff [of "\<lambda>i. find_child ''uri'' i \<noteq> None" ?insts]
      by (simp only: eq_commute [of "length ?insts"])
    then show ?thesis by (simp only: n u)
  qed
  have j: "\<forall>f. parse_zap_alert alert = Inr f \<longrightarrow> instances f = length (urls f)"
    by (intro allI impI) (rule json_instances_urls)
  show ?thesis
    apply (rule conjI, rule j)
    apply (rule conjI, rule n)
    apply (rule conjI, rule u)
    apply (rule conjI, rule le)
    apply (rule eq)
    done
qed

theorem instance_count_and_urls_witness:
  "(\<exists>f. parse_zap_alert
          (PDict [(''instances'', PList [PDict [(''uri'', PStr ''http://a/'')], PDict []])])
        = Inr f \<and> instances f = 2 \<and> urls f = [PStr ''http://a/'', PStr []])
   \<and> instances (parse_zap_xml_alert
        (Element ''alertitem'' None
           [Element ''instances'' None
              [Element ''instance'' None [Element ''uri'' (Some ''http://a/'') []]]])) = 1
   \<and> urls (parse_zap_xml_alert
        (Element ''alertitem'' None
           [Element ''instances'' None
              [Element ''instance'' None [Element ''uri'' (Some ''http://a/'') []]]]))
       = [PStr ''http://a/'']"
  using instance_count_and_urls
    [of "PDict [(''instances'', PList [PDict [(''uri'', PStr ''http://a/'')], PDict []])]"
        "Element ''alertitem'' None
           [Element ''instances'' None
              [Element ''instance'' None [Element ''uri'' (Some ''http://a/'') []]]]"]
  by (simp add: parse_zap_alert_def risk_of_riskdesc_def index0_def dict_get_default_def
      risk_map_json_def py_len_def py_iter_def py_get_def parse_zap_xml_alert_def Let_def
      findall_path2_def findall_children_def find_child_def text_value_def)

section \<open>Properties of the risk summary\<close>

lemma keys_dict_incr: "map fst (dict_incr k d) = map fst d"
  by (induction d) auto

lemma keys_update_risk_summary: "map fst (update_risk_summary r rs) = map fst rs"
  by (simp add: update_risk_summary_def keys_dict_incr)

lemma sum_dict_incr:
  "k \<in> set (map fst d) \<Longrightarrow> sum_list (map snd (dict_incr k d)) = sum_list (map snd d) + 1"
  by (induction d) force+

lemma sum_update_risk_summary:
  "sum_values (update_risk_summary r rs) =
     sum_values rs + (if r \<in> set (map fst rs) then 1 else 0)"
  by (simp add: update_risk_summary_def sum_values_def sum_dict_incr)

lemma dict_incr_mono:
  "dict_get_default k 0 d \<le> dict_get_default k 0 (dict_incr r d)"
  by (induction d) (auto simp: dict_get_default_def)

lemma update_risk_summary_mono:
  "dict_get_default k 0 rs \<le> dict_get_default k 0 (update_risk_summary r rs)"
  by (simp add: update_risk_summary_def dict_incr_mono)

lemma foldl_update_keys:
  "map fst (foldl (\<lambda>rs risk. update_risk_summary risk rs) rs0 risks) = map fst rs0"
  by (induction risks arbitrary: rs0) (auto simp: keys_update_risk_summary)

lemma keys_summary_after: "map fst (summary_after risks) = risk_levels"
  by (simp add: summary_after_def foldl_update_keys init_risk_summary_def risk_levels_def)

lemma foldl_update_sum:
  "sum_values (foldl (\<lambda>rs risk. update_risk_summary risk rs) rs0 risks) =
     sum_values rs0 + int (length (filter (\<lambda>r. r \<in> set (map fst rs0)) risks))"
proof (induction risks arbitrary: rs0)
  case Nil
  show ?case by simp
next
  case (Cons r risks)
  show ?case
    by (simp add: Cons.IH keys_update_risk_summary sum_update_risk_summary)
qed

lemma sum_summary_after:
  "sum_values (summary_after risks) = int (length (filter (\<lambda>r. r \<in> set risk_levels) risks))"
proof -
  have "sum_values init_risk_summary = 0"
    by (simp add: sum_values_def init_risk_summary_def)
  moreover have "map fst init_risk_summary = risk_levels"
    by (simp add: init_risk_summary_def risk_levels_def)
  ultimately show ?thesis
    by (simp add: summary_after_def foldl_update_sum)
qed

text \<open>
  Claim C5. After the classifier has run once per finding, the five buckets of the summary
  add up to the number of findings whose risk is one of critical, high, medium, low and
  informational. An update with any other label (such as \<^verbatim>\<open>unknown\<close>) leaves the summary as
  it is, and no update makes a bucket smaller.
\<close>

theorem risk_summary_counts_recognized:
  "sum_values (summary_after risks) = int (length (filter (\<lambda>r. r \<in> set risk_levels) risks))
   \<and> (r \<notin> set risk_levels \<longrightarrow>
        update_risk_summary r (summary_after risks) = summary_after risks)
   \<and> dict_get_default k 0 (summary_after risks)
        \<le> dict_get_default k 0 (update_risk_summary r (summary_after risks))"
proof (intro conjI impI)
  show "sum_values (summary_after risks) =
          int (length (filter (\<lambda>r. r \<in> set risk_levels) risks))"
    by (rule sum_summary_after)
next
  assume "r \<notin> set risk_levels"
  then show "update_risk_summary r (summary_after risks) = summary_after risks"
    by (simp add: update_risk_summary_def keys_summary_after)
next
  show "dict_get_default k 0 (summary_after risks)
          \<le> dict_get_default k 0 (update_risk_summary r (summary_after risks))"
    by (rule update_risk_summary_mono)
qed

theorem risk_summary_counts_recognized_witness:
  "sum_values (summary_after [''high'', ''unknown'', ''low'', ''high'']) = 3
   \<and> ''unknown'' \<notin> set risk_levels
   \<and> update_risk_summary ''unknown'' (summary_after [''high'', ''unknown'', ''low'', ''high''])
       = summary_after [''high'', ''unknown'', ''low'', ''high'']
   \<and> dict_get_default ''high'' 0 (summary_after [''high'', ''unknown'', ''low'', ''high'']) = 2"
  using risk_summary_counts_recognized
    [of "[''high'', ''unknown'', ''low'', ''high'']" "''unknown''" "''high''"]
  by (simp add: risk_levels_def summary_after_def update_risk_summary_def
      init_risk_summary_def dict_get_default_def)

section \<open>Properties of the report readers\<close>

lemma valid_json_reportE:
  assumes "valid_json_report data alerts"
  obtains d site0 rest where "data = PDict d"
    and "map_of d ''site'' = Some (PList (PDict site0 # rest))"
    and "map_of site0 ''alerts'' = Some (PList alerts)"
    and "list_all valid_alert alerts"
proof -
  from assms obtain d where d: "data = PDict d"
    by (cases data) (simp_all add: valid_json_report_def)
  from assms d obtain sites where s: "map_of d ''site'' = Some (PList sites)"
    by (auto simp: valid_json_report_def split: option.splits pyval.splits)
  from assms d s obtain site0 rest where r: "sites = PDict site0 # rest"
    by (auto simp: valid_json_report_def split: list.splits pyval.splits)
  from assms d s r have "map_of site0 ''alerts'' = Some (PList alerts)"
    and "list_all valid_alert alerts"
    by (simp_all add: valid_json_report_def)
  with d s r show ?thesis
    by (auto intro: that)
qed

lemma valid_alert_parses:
  assumes "valid_alert alert"
  shows "\<exists>f. parse_zap_alert alert = Inr f \<and> instances f = instances_length alert"
proof -
  from assms obtain d where d: "alert = PDict d"
    by (cases alert) (simp_all add: valid_alert_def)
  from assms d obtain r where
    r: "risk_of_riskdesc (dict_get_default ''riskdesc'' (PStr ''Unknown'') d) = Inr r"
    by (auto simp: valid_alert_def dict_get_default_def risk_of_riskdesc_str
        split: option.splits pyval.splits)
  from assms d obtain insts where
    i: "dict_get_default ''instances'' (PList []) d = PList insts" "list_all is_dict insts"
    by (auto simp: valid_alert_def dict_get_default_def split: option.splits pyval.splits)
  have "\<And>x. x \<in> set insts \<Longrightarrow>
      py_get x ''uri'' (PStr []) = Inr (case x of PDict e \<Rightarrow> dict_get_default ''uri'' (PStr []) e | _ \<Rightarrow> PNone)"
    using i(2) by (auto simp: list_all_iff py_get_def split: pyval.splits)
  then have u: "map_result (\<lambda>inst. py_get inst ''uri'' (PStr [])) insts =
      Inr (map (\<lambda>x. case x of PDict e \<Rightarrow> dict_get_default ''uri'' (PStr []) e | _ \<Rightarrow> PNone) insts)"
    by (rule map_result_total)
  show ?thesis
    by (simp add: d parse_zap_alert_def r i(1) py_len_def py_iter_def u instances_length_def)
qed

lemma json_alert_loop_valid:
  "list_all valid_alert alerts \<Longrightarrow>
   \<exists>new. json_alert_loop alerts a = (None, foldl add_finding a new)
     \<and> map Inr new = map parse_zap_alert alerts
     \<and> map instances new = map instances_length alerts"
proof (induction alerts arbitrary: a)
  case Nil
  show ?case by (rule exI [of _ "[]"]) simp
next
  case (Cons alert alerts)
  from Cons.prems obtain f where f: "parse_zap_alert alert = Inr f"
    "instances f = instances_length alert"
    using valid_alert_parses by auto
  from Cons.prems have "list_all valid_alert alerts" by simp
  from Cons.IH [OF this, of "add_finding a f"] obtain new where
    "json_alert_loop alerts (add_finding a f) = (None, foldl add_finding (add_finding a f) new)"
    "map Inr new = map parse_zap_alert alerts"
    "map instances new = map instances_length alerts"
    by blast
  then show ?case
    by (intro exI [of _ "f # new"]) (simp add: f)
qed

lemma findings_foldl_add: "findings (foldl add_finding a new) = findings a @ new"
  by (induction new arbitrary: a) (simp_all add: add_finding_def)

lemma risk_summary_foldl_add:
  "risk_summary (foldl add_finding a new) =
     foldl (\<lambda>rs r. update_risk_summary r rs) (risk_summary a) (map risk new)"
  by (induction new arbitrary: a) (simp_all add: add_finding_def)

lemma first_site_alerts_valid:
  assumes "valid_json_report data alerts"
  shows "first_site_alerts data = Inr (Some (PList alerts))"
proof -
  from assms obtain d site0 rest where d: "data = PDict d"
    and s: "map_of d ''site'' = Some (PList (PDict site0 # rest))"
    and a: "map_of site0 ''alerts'' = Some (PList alerts)"
    by (rule valid_json_reportE)
  from s have "(''site'', PList (PDict site0 # rest)) \<in> set d"
    by (rule map_of_SomeD)
  then have "''site'' \<in> set (map fst d)"
    by force
  then have "py_in ''site'' data = Inr True"
    by (simp add: py_in_def d)
  moreover have "py_getitem ''site'' data = Inr (PList (PDict site0 # rest))"
    by (simp add: py_getitem_def d dict_get_def s)
  moreover have "py_len (PList (PDict site0 # rest)) = Inr (Suc (length rest))"
    by (simp add: py_len_def)
  moreover have "py_index0 (PList (PDict site0 # rest)) = Inr (PDict site0)"
    by (simp add: py_index0_def index0_def)
  moreover have "py_get (PDict site0) ''alerts'' (PList []) = Inr (PList alerts)"
    by (simp add: py_get_def dict_get_default_def a)
  ultimately show ?thesis
    by (simp add: first_site_alerts_def)
qed


lemma analyze_json_valid:
  assumes "valid_json_report data alerts"
    and "filesystem w json_file = Some (File (JsonDoc data))"
  shows "\<exists>new. analyze_zap_json_report json_file (w, a) =
           (print (FoundAlerts (length alerts)) (print (AnalyzingJson json_file) w),
            foldl add_finding a new)
         \<and> map Inr new = map parse_zap_alert alerts
         \<and> map instances new = map instances_length alerts"
proof -
  from assms(1) have "list_all valid_alert alerts"
    by (rule valid_json_reportE)
  then obtain new where new: "json_alert_loop alerts a = (None, foldl add_finding a new)"
    "map Inr new = map parse_zap_alert alerts"
    "map instances new = map instances_length alerts"
    using json_alert_loop_valid by blast
  have "analyze_zap_json_report json_file (w, a) =
           (print (FoundAlerts (length alerts)) (print (AnalyzingJson json_file) w),
            foldl add_finding a new)"
    by (simp add: analyze_zap_json_report_def read_json_def assms(2)
        first_site_alerts_valid [OF assms(1)] py_iter_def py_len_def new(1) Let_def)
  with new(2,3) show ?thesis by blast
qed

lemma analyze_xml_parsed:
  assumes "filesystem w xml_file = Some (File (XmlDoc doc))"
  shows "analyze_zap_xml_report xml_file (w, a) =
           (print (FoundAlerts (length (findall_descendants ''alertitem'' doc)))
              (print (AnalyzingXml xml_file) w),
            foldl add_finding a (map parse_zap_xml_alert (findall_descendants ''alertitem'' doc)))"
  by (simp add: analyze_zap_xml_report_def read_xml_def assms Let_def foldl_map)

text \<open>
  Claim C4. A valid JSON report adds one finding per entry of the \<^verbatim>\<open>alerts\<close> array of its
  first site, in order, and the \<open>instances\<close> of each finding is the length of the
  \<^verbatim>\<open>instances\<close> array of its alert. An XML report adds one finding per \<^verbatim>\<open>alertitem\<close>
  element below the root, in document order, and the \<open>instances\<close> of each finding is the
  number of \<^verbatim>\<open>instances/instance\<close> nodes of its \<^verbatim>\<open>alertitem\<close>.
\<close>

theorem report_cardinality:
  "(valid_json_report data alerts \<and> filesystem w json_file = Some (File (JsonDoc data)) \<longrightarrow>
      (\<exists>new. findings (snd (analyze_zap_json_report json_file (w, a))) = findings a @ new
         \<and> length new = length alerts
         \<and> map instances new = map instances_length alerts))
   \<and> (filesystem w xml_file = Some (File (XmlDoc doc)) \<longrightarrow>
      (\<exists>new. findings (snd (analyze_zap_xml_report xml_file (w, a))) = findings a @ new
         \<and> length new = length (findall_descendants ''alertitem'' doc)
         \<and> map instances new =
             map (\<lambda>item. length (findall_path2 ''instances'' ''instance'' item))
               (findall_descendants ''alertitem'' doc)))"
proof (intro conjI impI)
  assume "valid_json_report data alerts \<and> filesystem w json_file = Some (File (JsonDoc data))"
  then obtain new where new: "analyze_zap_json_report json_file (w, a) =
           (print (FoundAlerts (length alerts)) (print (AnalyzingJson json_file) w),
            foldl add_finding a new)"
    "map Inr new = map parse_zap_alert alerts"
    "map instances new = map instances_length alerts"
    using analyze_json_valid by blast
  from new(2) have "length new = length alerts"
    by (rule map_eq_imp_length_eq)
  with new(1,3) show "\<exists>new. findings (snd (analyze_zap_json_report json_file (w, a))) = findings a @ new
         \<and> length new = length alerts
         \<and> map instances new = map instances_length alerts"
    by (intro exI [of _ new]) (simp add: findings_foldl_add)
next
  assume x: "filesystem w xml_file = Some (File (XmlDoc doc))"
  let ?items = "findall_descendants ''alertitem'' doc"
  have "map instances (map parse_zap_xml_alert ?items) =
      map (\<lambda>item. length (findall_path2 ''instances'' ''instance'' item)) ?items"
    by (simp add: parse_zap_xml_alert_def Let_def)
  then show "\<exists>new. findings (snd (analyze_zap_xml_report xml_file (w, a))) = findings a @ new
         \<and> length new = length ?items
         \<and> map instances new =
             map (\<lambda>item. length (findall_path2 ''instances'' ''instance'' item)) ?items"
    by (intro exI [of _ "map parse_zap_xml_alert ?items"])
      (simp add: analyze_xml_parsed [OF x] findings_foldl_add)
qed


theorem report_cardinality_witness:
  "valid_json_report
     (PDict [(''site'', PList [PDict [(''alerts'', PList
        [PDict [(''name'', PStr ''A''), (''riskdesc'', PStr ''High (Warning)''),
                (''instances'', PList [PDict [(''uri'', PStr ''u1'')], PDict []])],
         PDict [(''name'', PStr ''B''), (''riskdesc'', PStr ''Low (Info)'')]])]])])
     [PDict [(''name'', PStr ''A''), (''riskdesc'', PStr ''High (Warning)''),
             (''instances'', PList [PDict [(''uri'', PStr ''u1'')], PDict []])],
      PDict [(''name'', PStr ''B''), (''riskdesc'', PStr ''Low (Info)'')]]
   \<and> (\<exists>new. findings (snd (analyze_zap_json_report ''r/zap.json''
         (\<lparr>filesystem = (\<lambda>p. if p = ''r/zap.json'' then Some (File (JsonDoc
             (PDict [(''site'', PList [PDict [(''alerts'', PList
                [PDict [(''name'', PStr ''A''), (''riskdesc'', PStr ''High (Warning)''),
                        (''instances'', PList [PDict [(''uri'', PStr ''u1'')], PDict []])],
                 PDict [(''name'', PStr ''B''), (''riskdesc'', PStr ''Low (Info)'')]])]])])))
              else if p = ''r/zap.xml'' then Some (File (XmlDoc
                (Element ''OWASPZAPReport'' None
                   [Element ''site'' None
                      [Element ''alerts'' None
                         [Element ''alertitem'' None
                            [Element ''instances'' None
                               [Element ''instance'' None [], Element ''instance'' None []]],
                          Element ''alertitem'' None []]]])))
              else None),
            write_protected = (\<lambda>p. False), console = [], clock = [], set_order = remdups\<rparr>,
          init_analyzer ''r''))) = new
        \<and> length new = 2 \<and> map instances new = [2, 0])
   \<and> (\<exists>new. findings (snd (analyze_zap_xml_report ''r/zap.xml''
         (\<lparr>filesystem = (\<lambda>p. if p = ''r/zap.json'' then Some (File (JsonDoc
             (PDict [(''site'', PList [PDict [(''alerts'', PList
                [PDict [(''name'', PStr ''A''), (''riskdesc'', PStr ''High (Warning)''),
                        (''instances'', PList [PDict [(''uri'', PStr ''u1'')], PDict []])],
                 PDict [(''name'', PStr ''B''), (''riskdesc'', PStr ''Low (Info)'')]])]])])))
              else if p = ''r/zap.xml'' then Some (File (XmlDoc
                (Element ''OWASPZAPReport'' None
                   [Element ''site'' None
                      [Element ''alerts'' None
                         [Element ''alertitem'' None
                            [Element ''instances'' None
                               [Element ''instance'' None [], Element ''instance'' None []]],
                          Element ''alertitem'' None []]]])))
              else None),
            write_protected = (\<lambda>p. False), console = [], clock = [], set_order = remdups\<rparr>,
          init_analyzer ''r''))) = new
        \<and> length new = 2 \<and> map instances new = [2, 0])"
  using report_cardinality
    [of "PDict [(''site'', PList [PDict [(''alerts'', PList
        [PDict [(''name'', PStr ''A''), (''riskdesc'', PStr ''High (Warning)''),
                (''instances'', PList [PDict [(''uri'', PStr ''u1'')], PDict []])],
         PDict [(''name'', PStr ''B''), (''riskdesc'', PStr ''Low (Info)'')]])]])]"
     "[PDict [(''name'', PStr ''A''), (''riskdesc'', PStr ''High (Warning)''),
             (''instances'', PList [PDict [(''uri'', PStr ''u1'')], PDict []])],
      PDict [(''name'', PStr ''B''), (''riskdesc'', PStr ''Low (Info)'')]]"
     "\<lparr>filesystem = (\<lambda>p. if p = ''r/zap.json'' then Some (File (JsonDoc
             (PDict [(''site'', PList [PDict [(''alerts'', PList
                [PDict [(''name'', PStr ''A''), (''riskdesc'', PStr ''High (Warning)''),
                        (''instances'', PList [PDict [(''uri'', PStr ''u1'')], PDict []])],
                 PDict [(''name'', PStr ''B''), (''riskdesc'', PStr ''Low (Info)'')]])]])])))
              else if p = ''r/zap.xml'' then Some (File (XmlDoc
                (Element ''OWASPZAPReport'' None
                   [Element ''site'' None
                      [Element ''alerts'' None
                         [Element ''alertitem'' None
                            [Element ''instances'' None
                               [Element ''instance'' None [], Element ''instance'' None []]],
                          Element ''alertitem'' None []]]])))
              else None),
            write_protected = (\<lambda>p. False), console = [], clock = [], set_order = remdups\<rparr>"
     "''r/zap.json''" "init_analyzer ''r''" "''r/zap.xml''"
     "Element ''OWASPZAPReport'' None
                   [Element ''site'' None
                      [Element ''alerts'' None
                         [Element ''alertitem'' None
                            [Element ''instances'' None
                               [Element ''instance'' None [], Element ''instance'' None []]],
                          Element ''alertitem'' None []]]]"]
  by (simp add: valid_json_report_def valid_alert_def instances_length_def dict_get_default_def
      init_analyzer_def findall_descendants_def findall_path2_def findall_children_def)

section \<open>Properties of the recommendation engine\<close>

lemma set_first_seen: "set (first_seen xs) = set xs"
  by (induction xs) auto

lemma distinct_first_seen: "distinct (first_seen xs)"
  by (induction xs) (auto simp: distinct_removeAll)

lemma first_seen_snoc:
  "first_seen (xs @ [x]) = (if x \<in> set xs then first_seen xs else first_seen xs @ [x])"
proof (induction xs)
  case Nil
  show ?case by simp
next
  case (Cons y ys)
  show ?case
  proof (cases "x = y")
    case True
    then show ?thesis
      using Cons.IH by (auto simp: set_first_seen)
  next
    case False
    then show ?thesis
      using Cons.IH by (auto simp: set_first_seen)
  qed
qed

lemma dict_append_present:
  "k \<in> set (map fst d) \<Longrightarrow> distinct (map fst d) \<Longrightarrow>
   dict_append k f d = map (\<lambda>p. if fst p = k then (fst p, snd p @ [f]) else p) d"
proof (induction d)
  case Nil
  then show ?case by simp
next
  case (Cons p d)
  obtain k' g where p: "p = (k', g)" by (cases p)
  show ?case
  proof (cases "k = k'")
    case True
    with Cons.prems(2) have "k \<notin> set (map fst d)" by (simp add: p)
    then have "map (\<lambda>p. if fst p = k then (fst p, snd p @ [f]) else p) d = d"
      by (induction d) auto
    with True show ?thesis by (simp add: p)
  next
    case False
    with Cons.prems have "k \<in> set (map fst d)" "distinct (map fst d)" by (auto simp: p)
    with Cons.IH False show ?thesis by (simp add: p)
  qed
qed

lemma dict_append_absent:
  "k \<notin> set (map fst d) \<Longrightarrow> dict_append k f d = d @ [(k, [f])]"
  by (induction d) auto

lemma keys_groups_of: "map fst (groups_of fs) = first_seen (map name fs)"
  by (simp add: groups_of_def comp_def)

lemma dict_append_groups_of: "dict_append (name f) f (groups_of fs) = groups_of (fs @ [f])"
proof (cases "name f \<in> set (map name fs)")
  case True
  then have "name f \<in> set (map fst (groups_of fs))"
    by (simp only: keys_groups_of set_first_seen)
  moreover have "distinct (map fst (groups_of fs))"
    by (simp only: keys_groups_of distinct_first_seen)
  ultimately have "dict_append (name f) f (groups_of fs) =
      map (\<lambda>p. if fst p = name f then (fst p, snd p @ [f]) else p) (groups_of fs)"
    by (rule dict_append_present)
  also have "\<dots> = groups_of (fs @ [f])"
    using True by (simp add: groups_of_def first_seen_snoc comp_def)
  finally show ?thesis .
next
  case False
  then have "name f \<notin> set (map fst (groups_of fs))"
    by (simp only: keys_groups_of set_first_seen not_False_eq_True)
  then have "dict_append (name f) f (groups_of fs) = groups_of fs @ [(name f, [f])]"
    by (rule dict_append_absent)
  also have "\<dots> = groups_of (fs @ [f])"
  proof -
    have "\<And>g. g \<in> set fs \<Longrightarrow> name g \<noteq> name f"
      using False by (metis image_eqI list.set_map)
    then have "filter (\<lambda>g. name g = name f) fs = []"
      by (simp add: filter_empty_conv)
    moreover have "\<forall>k \<in> set (first_seen (map name fs)). name f \<noteq> k"
      using False by (metis set_first_seen)
    ultimately show ?thesis
      using False by (simp add: groups_of_def first_seen_snoc)
  qed
  finally show ?thesis .
qed

lemma group_findings_groups_of:
  "group_findings fs (groups_of prior) =
     (if list_all (\<lambda>f. hashable (name f)) fs then Inr (groups_of (prior @ fs)) else Inl TypeError)"
proof (induction fs arbitrary: prior)
  case Nil
  show ?case by simp
next
  case (Cons f fs)
  show ?case
    using Cons.IH [of "prior @ [f]"] by (simp add: dict_append_groups_of)
qed

lemma group_findings_empty:
  "group_findings fs [] =
     (if list_all (\<lambda>f. hashable (name f)) fs then Inr (groups_of fs) else Inl TypeError)"
  using group_findings_groups_of [of fs "[]"] by (simp add: groups_of_def)






lemma generate_recommendations_Inr:
  assumes "generate_recommendations order a = Inr a'"
  obtains new where "list_all (\<lambda>f. hashable (name f)) (findings a)"
    and "map_result (make_recommendation order) (groups_of (findings a)) = Inr new"
    and "a' = a\<lparr>recommendations := sort_key sort_key_of (recommendations a @ new)\<rparr>"
proof -
  from assms obtain d new where d: "group_findings (findings a) [] = Inr d"
    and new: "map_result (make_recommendation order) d = Inr new"
    and a': "a' = a\<lparr>recommendations := sort_key sort_key_of (recommendations a @ new)\<rparr>"
    by (auto simp: generate_recommendations_def bind_Inr_iff)
  from d have h: "list_all (\<lambda>f. hashable (name f)) (findings a)" and "d = groups_of (findings a)"
    by (simp_all add: group_findings_empty split: if_splits)
  with new a' show ?thesis by (auto intro: that)
qed






text \<open>
  Claim C1, as stated: a second run of \<^verbatim>\<open>generate_recommendations\<close> on the same findings
  yields the recommendation list of the first run. It does not: the second run appends its
  recommendations to those of the first.
\<close>

theorem second_run_counterexample:
  "generate_recommendations remdups
     (example_analyzer [example_finding ''A'' ''high'' (PStr ''Text.'')])
   = Inr ((example_analyzer [example_finding ''A'' ''high'' (PStr ''Text.'')])
        \<lparr>recommendations := [example_recommendation ''HIGH'' ''A'' 1 ''high'']\<rparr>)
   \<and> generate_recommendations remdups
       ((example_analyzer [example_finding ''A'' ''high'' (PStr ''Text.'')])
        \<lparr>recommendations := [example_recommendation ''HIGH'' ''A'' 1 ''high'']\<rparr>)
   = Inr ((example_analyzer [example_finding ''A'' ''high'' (PStr ''Text.'')])
        \<lparr>recommendations := [example_recommendation ''HIGH'' ''A'' 1 ''high'',
                             example_recommendation ''HIGH'' ''A'' 1 ''high'']\<rparr>)"
  by code_simp

lemma count_list_insort_key: "count_list (insort_key f x xs) y = count_list (x # xs) y"
  by (induction xs) auto

lemma count_list_sort_key: "count_list (sort_key f xs) y = count_list xs y"
  by (induction xs) (simp_all add: count_list_insort_key)

text \<open>
  Claim C1, amended. On an analyzer whose recommendation list is empty a run of
  \<^verbatim>\<open>generate_recommendations\<close> changes nothing but the recommendation list, and a run on
  the resulting analyzer with its recommendation list cleared gives the very same result.
  A second run without clearing the list returns too, keeps the findings and the risk
  summary, and leaves a recommendation list in which every recommendation of the first run
  occurs twice, so the list is twice as long.
\<close>

theorem second_run_appends:
  assumes "recommendations a = []" and "generate_recommendations order a = Inr a1"
  shows "findings a1 = findings a \<and> risk_summary a1 = risk_summary a
   \<and> generate_recommendations order (a1\<lparr>recommendations := []\<rparr>) = Inr a1
   \<and> (\<exists>a2. generate_recommendations order a1 = Inr a2
         \<and> findings a2 = findings a \<and> risk_summary a2 = risk_summary a
         \<and> length (recommendations a2) = 2 * length (recommendations a1)
         \<and> (\<forall>r. count_list (recommendations a2) r = 2 * count_list (recommendations a1) r))"
proof -
  from assms(2) obtain new where
    h: "list_all (\<lambda>f. hashable (name f)) (findings a)"
    and new: "map_result (make_recommendation order) (groups_of (findings a)) = Inr new"
    and a1: "a1 = a\<lparr>recommendations := sort_key sort_key_of (recommendations a @ new)\<rparr>"
    by (rule generate_recommendations_Inr)
  from a1 assms(1) have recs1: "recommendations a1 = sort_key sort_key_of new"
    by simp
  from a1 have same: "findings a1 = findings a" "risk_summary a1 = risk_summary a"
    by simp_all
  have run: "\<And>b. findings b = findings a \<Longrightarrow>
      generate_recommendations order b =
        Inr (b\<lparr>recommendations := sort_key sort_key_of (recommendations b @ new)\<rparr>)"
    using h new by (simp add: generate_recommendations_def group_findings_empty)
  have "generate_recommendations order (a1\<lparr>recommendations := []\<rparr>) =
      Inr (a1\<lparr>recommendations := sort_key sort_key_of new\<rparr>)"
    using run [of "a1\<lparr>recommendations := []\<rparr>"] same(1) by simp
  also have "a1\<lparr>recommendations := sort_key sort_key_of new\<rparr> = a1"
    using recs1 by simp
  finally have again: "generate_recommendations order (a1\<lparr>recommendations := []\<rparr>) = Inr a1" .
  define a2 where "a2 = a1\<lparr>recommendations := sort_key sort_key_of (recommendations a1 @ new)\<rparr>"
  have second: "generate_recommendations order a1 = Inr a2"
    unfolding a2_def using same(1) by (rule run)
  have recs2: "recommendations a2 = sort_key sort_key_of (sort_key sort_key_of new @ new)"
    by (simp add: a2_def recs1)
  have len: "length (recommendations a2) = 2 * length (recommendations a1)"
    by (simp add: recs1 recs2)
  have cnt: "\<forall>r. count_list (recommendations a2) r = 2 * count_list (recommendations a1) r"
    by (simp add: recs1 recs2 count_list_sort_key)
  have keep: "findings a2 = findings a" "risk_summary a2 = risk_summary a"
    by (simp_all add: a2_def same)
  from second keep len cnt
  have "\<exists>a2. generate_recommendations order a1 = Inr a2
         \<and> findings a2 = findings a \<and> risk_summary a2 = risk_summary a
         \<and> length (recommendations a2) = 2 * length (recommendations a1)
         \<and> (\<forall>r. count_list (recommendations a2) r = 2 * count_list (recommendations a1) r)"
    by blast
  with same again show ?thesis
    by blast
qed

theorem second_run_appends_witness:
  "recommendations (example_analyzer [example_finding ''A'' ''high'' (PStr ''Text.'')]) = []
   \<and> generate_recommendations remdups
       (example_analyzer [example_finding ''A'' ''high'' (PStr ''Text.'')])
     = Inr ((example_analyzer [example_finding ''A'' ''high'' (PStr ''Text.'')])
        \<lparr>recommendations := [example_recommendation ''HIGH'' ''A'' 1 ''high'']\<rparr>)
   \<and> generate_recommendations remdups
       ((example_analyzer [example_finding ''A'' ''high'' (PStr ''Text.'')])
        \<lparr>recommendations := [example_recommendation ''HIGH'' ''A'' 1 ''high''],
         recommendations := []\<rparr>)
     = Inr ((example_analyzer [example_finding ''A'' ''high'' (PStr ''Text.'')])
        \<lparr>recommendations := [example_recommendation ''HIGH'' ''A'' 1 ''high'']\<rparr>)"
proof -
  let ?a = "example_analyzer [example_finding ''A'' ''high'' (PStr ''Text.'')]"
  let ?a1 = "?a\<lparr>recommendations := [example_recommendation ''HIGH'' ''A'' 1 ''high'']\<rparr>"
  have e: "recommendations ?a = []"
    by code_simp
  have r: "generate_recommendations remdups ?a = Inr ?a1"
    by code_simp
  from second_run_appends [OF e r]
  have "generate_recommendations remdups (?a1\<lparr>recommendations := []\<rparr>) = Inr ?a1"
    by blast
  with e r show ?thesis
    by (intro conjI)
qed

section \<open>Properties of the executive summary and of the risk table\<close>

















section \<open>Properties of the run\<close>

text \<open>
  Claim C9. When the configured reports directory does not exist, \<^verbatim>\<open>analyze_all_reports\<close>
  prints that the directory was not found and returns at once. The analyzer is returned as
  it was, so the findings, the recommendations and the risk summary of a new analyzer stay
  empty; the environment changes in its console only, so no report was read and no output
  file was written.
\<close>

theorem missing_directory_no_output:
  "filesystem w (reports_dir a) = None \<Longrightarrow>
   analyze_all_reports (w, a) =
     Inr (w\<lparr>console := console w @ [Scanning (reports_dir a), DirNotFound (reports_dir a)]\<rparr>, a)"
  by (simp add: analyze_all_reports_def print_def Let_def)

theorem missing_directory_no_output_witness:
  "filesystem \<lparr>filesystem = (\<lambda>p. None), write_protected = (\<lambda>p. False), console = [],
       clock = ''2025-01-01 00:00:00'', set_order = remdups\<rparr>
     (reports_dir (init_analyzer ''./security/reports'')) = None
   \<and> analyze_all_reports
       (\<lparr>filesystem = (\<lambda>p. None), write_protected = (\<lambda>p. False), console = [],
          clock = ''2025-01-01 00:00:00'', set_order = remdups\<rparr>,
        init_analyzer ''./security/reports'')
     = Inr (\<lparr>filesystem = (\<lambda>p. None), write_protected = (\<lambda>p. False),
             console = [Scanning ''./security/reports'', DirNotFound ''./security/reports''],
             clock = ''2025-01-01 00:00:00'', set_order = remdups\<rparr>,
            \<lparr>reports_dir = ''./security/reports'', findings = [], recommendations = [],
             risk_summary = init_risk_summary\<rparr>)"
  using missing_directory_no_output
    [of "\<lparr>filesystem = (\<lambda>p. None), write_protected = (\<lambda>p. False), console = [],
          clock = ''2025-01-01 00:00:00'', set_order = remdups\<rparr>"
        "init_analyzer ''./security/reports''"]
  by (simp add: init_analyzer_def)

end
